theory Spec2Isabelle
  imports Main
begin

section \<open>The admission pipeline of the B2B payments gateway\<close>

text \<open>
  The development embeds the three request-admission middlewares of the repository:
  \<^item> \<open>TenantExtraction\<close> and \<open>GetTenantID\<close> (package \<open>middleware\<close>, tenant identity from
    the client certificate's common name);
  \<^item> \<open>NewOPAClient\<close>, \<open>OPAClient.Evaluate\<close>, \<open>OPAClient.UpdatePolicy\<close> and the Rego text
    \<open>defaultPolicy\<close> (package \<open>policy\<close>);
  \<^item> \<open>Idempotency.Idempotent\<close> and \<open>responseRecorder\<close> (package \<open>middleware\<close>).

  Go strings are byte sequences and so are HOL strings. Status codes are \<open>int\<close>. The
  collaborators that are libraries and not code of the repository (the echo response
  object, the server's response writer, the Redis client, \<open>encoding/json\<close>, the Rego
  compiler) appear as small explicit models or as parameters; each such place says so.
  Calls to the logger are left out: they change nothing that the middlewares read back.
  A handler or middleware returns \<open>Some\<close> of its result, or \<open>None\<close> when the call does
  not return.
\<close>

subsection \<open>Go's \<open>strings\<close> helpers used by the middlewares\<close>

definition HasPrefix :: "string \<Rightarrow> string \<Rightarrow> bool" where
  "HasPrefix s prefix = (length s \<ge> length prefix \<and> take (length prefix) s = prefix)"

definition HasSuffix :: "string \<Rightarrow> string \<Rightarrow> bool" where
  "HasSuffix s suffix =
     (length s \<ge> length suffix \<and> drop (length s - length suffix) s = suffix)"

definition TrimPrefix :: "string \<Rightarrow> string \<Rightarrow> string" where
  "TrimPrefix s prefix = (if HasPrefix s prefix then drop (length prefix) s else s)"

definition TrimSuffix :: "string \<Rightarrow> string \<Rightarrow> string" where
  "TrimSuffix s suffix =
     (if HasSuffix s suffix then take (length s - length suffix) s else s)"

subsection \<open>HTTP status codes and errors\<close>

definition StatusOK :: int where "StatusOK = 200"
definition StatusBadRequest :: int where "StatusBadRequest = 400"
definition StatusUnauthorized :: int where "StatusUnauthorized = 401"
definition StatusForbidden :: int where "StatusForbidden = 403"
definition StatusInternalServerError :: int where "StatusInternalServerError = 500"

definition MethodPost :: string where "MethodPost = ''POST''"
definition MethodPut :: string where "MethodPut = ''PUT''"
definition MethodPatch :: string where "MethodPatch = ''PATCH''"

text \<open>
  \<open>HTTPError code message\<close> is \<open>echo.NewHTTPError(code, message)\<close>, \<open>Errorf\<close> is an error
  made by \<open>fmt.Errorf\<close>, and \<open>Panic\<close> is a run-time panic.
\<close>

datatype error = HTTPError int string | Errorf string | Panic string

subsection \<open>Requests, responses and the echo context\<close>

record pkix_Name =
  CommonName :: string

record Certificate =
  Subject :: pkix_Name
  SerialNumber :: int

record ConnectionState =
  PeerCertificates :: "Certificate list"
  VerifiedChains :: "Certificate list list"

record Request =
  ReqMethod :: string
  ReqPath :: string
  ReqHeader :: "string \<rightharpoonup> string list"
  ReqBody :: "string option"
  TLS :: "ConnectionState option"

text \<open>\<open>http.Header.Get\<close>: the first value stored under the key, the empty string if none.\<close>

definition Header_Get :: "(string \<rightharpoonup> string list) \<Rightarrow> string \<Rightarrow> string" where
  "Header_Get h key = (case h key of None \<Rightarrow> [] | Some [] \<Rightarrow> [] | Some (v # vs) \<Rightarrow> v)"

subsection \<open>The response writers of a request\<close>

text \<open>
  Three values of a request implement \<open>http.ResponseWriter\<close>: the writer of the server,
  the response object of the framework (\<open>echo.Response\<close>, what \<open>c.Response()\<close> returns)
  and the recorder of the idempotency middleware. \<open>echo.Response\<close> forwards every call
  to its field \<open>Writer\<close>; the recorder forwards every call to the writer it embeds, its
  field \<open>ResponseWriter\<close>.
\<close>

datatype writer = ServerWriter | EchoResponse | RecorderWriter

record responseRecorder =
  ResponseWriter :: writer
  body :: string
  status :: int

text \<open>
  The state behind the three writers: the fields \<open>Writer\<close>, \<open>Status\<close> and \<open>Committed\<close> of
  \<open>echo.Response\<close>; the recorder object (a placeholder until the middleware creates
  it); and the writer of the server with its header map, the status and the bytes it has
  sent, and the error a write on its connection meets, if any.
\<close>

record Response =
  Writer :: writer
  Status :: int
  Committed :: bool
  recorder :: responseRecorder
  RespHeader :: "string \<rightharpoonup> string list"
  WroteHeader :: bool
  WireStatus :: int
  Sent :: string
  conn_error :: "string option"

text \<open>
  The methods, by receiver. Which writer a call ends in depends on the fields \<open>Writer\<close>
  and \<open>ResponseWriter\<close>, and a chain of forwards need not end, so each method is a
  partial function: \<open>None\<close> says that the call does not return, because the forwards
  go on until the stack overflows or because the writer of the server panics.
  \<^item> \<open>ServerWriter\<close> is \<open>net/http\<close>: the first status counts, a status outside 100..999
    panics, a write without a status sends 200 first.
  \<^item> \<open>EchoResponse\<close> is \<open>echo.Response\<close>: \<open>Header\<close> asks \<open>Writer\<close>; \<open>WriteHeader\<close> does
    nothing on a committed response, else stores the status, calls \<open>Writer\<close> and only
    then sets \<open>Committed\<close>; \<open>Write\<close> first writes the status (200 if none is stored) on
    a response that is not committed and then calls \<open>Writer\<close>.
  \<^item> \<open>RecorderWriter\<close> is the source's \<open>responseRecorder\<close>: \<open>Write\<close> appends to \<open>body\<close>,
    \<open>WriteHeader\<close> stores \<open>status\<close>, and both, like the promoted \<open>Header\<close>, then call
    \<open>ResponseWriter\<close>.
\<close>

partial_function (option) Header :: "writer \<Rightarrow> Response \<Rightarrow> (string \<rightharpoonup> string list) option" where
  "Header x r =
     (case x of
        ServerWriter \<Rightarrow> Some (RespHeader r)
      | EchoResponse \<Rightarrow> Header (Writer r) r
      | RecorderWriter \<Rightarrow> Header (ResponseWriter (recorder r)) r)"

partial_function (option) WriteHeader :: "writer \<Rightarrow> int \<Rightarrow> Response \<Rightarrow> Response option" where
  "WriteHeader x code r =
     (case x of
        ServerWriter \<Rightarrow>
          (if WroteHeader r then Some r
           else if code < 100 \<or> code > 999 then None
           else Some (r\<lparr>WroteHeader := True, WireStatus := code\<rparr>))
      | EchoResponse \<Rightarrow>
          (if Committed r then Some r
           else Option.bind (WriteHeader (Writer r) code (r\<lparr>Status := code\<rparr>))
                  (\<lambda>r'. Some (r'\<lparr>Committed := True\<rparr>)))
      | RecorderWriter \<Rightarrow>
          WriteHeader (ResponseWriter (recorder r)) code
            (r\<lparr>recorder := (recorder r)\<lparr>status := code\<rparr>\<rparr>))"

definition server_Write :: "string \<Rightarrow> Response \<Rightarrow> error option \<times> Response" where
  "server_Write b r =
     (let r1 = (if WroteHeader r then r else r\<lparr>WroteHeader := True, WireStatus := StatusOK\<rparr>)
      in case conn_error r1 of
           Some e \<Rightarrow> (Some (Errorf e), r1)
         | None \<Rightarrow> (None, r1\<lparr>Sent := Sent r1 @ b\<rparr>))"

partial_function (option) Write :: "writer \<Rightarrow> string \<Rightarrow> Response \<Rightarrow> (error option \<times> Response) option" where
  "Write x b r =
     (case x of
        ServerWriter \<Rightarrow> Some (server_Write b r)
      | EchoResponse \<Rightarrow>
          Option.bind
            (if Committed r then Some r
             else if Status r = 0 then WriteHeader EchoResponse StatusOK (r\<lparr>Status := StatusOK\<rparr>)
             else WriteHeader EchoResponse (Status r) r)
            (\<lambda>r1. Write (Writer r1) b r1)
      | RecorderWriter \<Rightarrow>
          Write (ResponseWriter (recorder r)) b
            (r\<lparr>recorder := (recorder r)\<lparr>body := body (recorder r) @ b\<rparr>\<rparr>))"

text \<open>
  \<open>c.Response().Header().Set(k, v)\<close> and \<open>.Add(k, v)\<close>: the header map is asked for and
  then changed in place.
\<close>

definition Header_Set :: "string \<Rightarrow> string \<Rightarrow> Response \<Rightarrow> Response option" where
  "Header_Set k v r =
     Option.bind (Header EchoResponse r) (\<lambda>h. Some (r\<lparr>RespHeader := h(k \<mapsto> [v])\<rparr>))"

definition Header_Add :: "string \<Rightarrow> string \<Rightarrow> Response \<Rightarrow> Response option" where
  "Header_Add k v r =
     Option.bind (Header EchoResponse r)
       (\<lambda>h. Some (r\<lparr>RespHeader := h(k \<mapsto> (case h k of None \<Rightarrow> [v] | Some vs \<Rightarrow> vs @ [v]))\<rparr>))"

text \<open>Values kept in the request-scoped store of the context (\<open>c.Set\<close>, \<open>c.Get\<close>).\<close>

datatype ctx_value = VString string | VOther

record Context =
  request :: Request
  response :: Response
  ctx_store :: "string \<rightharpoonup> ctx_value"

definition TenantContextKey :: string where
  "TenantContextKey = ''tenant_id''"

subsection \<open>The world outside a request, and handlers\<close>

text \<open>
  The Redis client: the keys with their value and time-to-live, and the failure the
  backend answers with, if any, on a read and on a write. \<open>rdb_Get\<close> is \<open>Get(...).Result()\<close>:
  a value, the error \<open>redis.Nil\<close> for a missing key, or another error. Expiry needs a
  clock and is not modelled: a stored key stays.
\<close>

datatype redis_error = redis_Nil | RedisErr string

record redis_Client =
  kv :: "string \<rightharpoonup> string \<times> int"
  get_failure :: "string option"
  set_failure :: "string option"

definition rdb_Get :: "redis_Client \<Rightarrow> string \<Rightarrow> redis_error + string" where
  "rdb_Get rc key =
     (case get_failure rc of
        Some e \<Rightarrow> Inl (RedisErr e)
      | None \<Rightarrow> (case kv rc key of None \<Rightarrow> Inl redis_Nil | Some (v, t) \<Rightarrow> Inr v))"

definition rdb_Set :: "redis_Client \<Rightarrow> string \<Rightarrow> string \<Rightarrow> int \<Rightarrow> redis_error option \<times> redis_Client" where
  "rdb_Set rc key v t =
     (case set_failure rc of
        Some e \<Rightarrow> (Some (RedisErr e), rc)
      | None \<Rightarrow> (None, rc\<lparr>kv := (kv rc)(key \<mapsto> (v, t))\<rparr>))"

text \<open>
  The state shared by requests: the Redis backend, the state of the business logic, and
  a counter of how often a business handler has run.
\<close>

record 'a world =
  rdb :: redis_Client
  app :: 'a
  handler_calls :: nat

type_synonym 'a HandlerFunc =
  "Context \<Rightarrow> 'a world \<Rightarrow> (error option \<times> Context \<times> 'a world) option"

text \<open>
  A business handler reads the request and the context store, changes the state of the
  business logic, and talks to the response through calls on \<open>c.Response()\<close>.
\<close>

datatype resp_op =
  HeaderSet string string
| HeaderAdd string string
| CallWriteHeader int
| CallWrite string

fun apply_op :: "resp_op \<Rightarrow> Response \<Rightarrow> Response option" where
  "apply_op (HeaderSet k v) r = Header_Set k v r"
| "apply_op (HeaderAdd k v) r = Header_Add k v r"
| "apply_op (CallWriteHeader code) r = WriteHeader EchoResponse code r"
| "apply_op (CallWrite b) r = map_option snd (Write EchoResponse b r)"

fun apply_ops :: "resp_op list \<Rightarrow> Response \<Rightarrow> Response option" where
  "apply_ops [] r = Some r"
| "apply_ops (op # ops) r = Option.bind (apply_op op r) (apply_ops ops)"

type_synonym 'a handler =
  "Request \<Rightarrow> (string \<rightharpoonup> ctx_value) \<Rightarrow> 'a \<Rightarrow> error option \<times> resp_op list \<times> 'a"

definition handler_of :: "'a handler \<Rightarrow> 'a HandlerFunc" where
  "handler_of h c w =
     (case h (request c) (ctx_store c) (app w) of
        (err, ops, a) \<Rightarrow>
          Option.bind (apply_ops ops (response c))
            (\<lambda>r. Some (err, c\<lparr>response := r\<rparr>,
                        w\<lparr>app := a, handler_calls := handler_calls w + 1\<rparr>)))"

subsection \<open>Tenant identity\<close>

definition TenantExtraction :: "'a HandlerFunc \<Rightarrow> 'a HandlerFunc" where
  "TenantExtraction next c w =
     (case TLS (request c) of
        None \<Rightarrow> Some (Some (HTTPError StatusUnauthorized ''missing client certificate''), c, w)
      | Some tlsConnState \<Rightarrow>
          (case PeerCertificates tlsConnState of
             [] \<Rightarrow> Some (Some (HTTPError StatusUnauthorized ''missing client certificate''), c, w)
           | clientCert # others \<Rightarrow>
               if VerifiedChains tlsConnState = [] then
                 Some (Some (HTTPError StatusUnauthorized
                          ''client certificate not verified by trusted CA''), c, w)
               else
                 let cn = CommonName (Subject clientCert) in
                 if cn = [] then
                   Some (Some (HTTPError StatusUnauthorized
                            ''client certificate missing Common Name''), c, w)
                 else if \<not> HasPrefix cn ''tenant-'' \<or> \<not> HasSuffix cn ''.yourorg.com'' then
                   Some (Some (HTTPError StatusForbidden
                            (''invalid client certificate CN: '' @ cn)), c, w)
                 else
                   let tenantID = TrimSuffix (TrimPrefix cn ''tenant-'') ''.yourorg.com'' in
                   if tenantID = [] then
                     Some (Some (HTTPError StatusForbidden ''empty tenant ID in certificate''), c, w)
                   else
                     next (c\<lparr>ctx_store := (ctx_store c)(TenantContextKey \<mapsto> VString tenantID)\<rparr>) w))"

definition GetTenantID :: "Context \<Rightarrow> error + string" where
  "GetTenantID c =
     (case ctx_store c TenantContextKey of
        Some (VString tenantID) \<Rightarrow>
          if tenantID = [] then Inl (Errorf ''tenant ID not found in context'')
          else Inr tenantID
      | _ \<Rightarrow> Inl (Errorf ''tenant ID not found in context''))"

subsection \<open>Policy evaluation\<close>

text \<open>
  Values of the policy input and of query results, as the evaluator sees them.
\<close>

datatype jvalue =
  JNull
| JBool bool
| JNum int
| JStr string
| JArr "jvalue list"
| JObj "(string \<times> jvalue) list"

record PolicyInput =
  TenantID :: string
  Method :: string
  Path :: string
  InputHeaders :: "string \<rightharpoonup> jvalue"
  UserAgent :: string
  ClientIP :: string
  Attributes :: "string \<rightharpoonup> jvalue"

record PolicyResult =
  Allowed :: bool
  Reason :: string
  Data :: "(string \<times> jvalue) list"

text \<open>
  A prepared query maps an input to an evaluation error or to a result set; each result
  carries the values of its expressions. The query of the source has one expression,
  \<open>data.b2b_payments.auth.allow\<close>.
\<close>

type_synonym ResultSet = "jvalue list list"

type_synonym PreparedEvalQuery = "PolicyInput \<Rightarrow> string + ResultSet"

record 's OPAClient =
  policy :: PreparedEvalQuery
  store :: 's














definition Evaluate :: "'s OPAClient \<Rightarrow> PolicyInput \<Rightarrow> error + PolicyResult" where
  "Evaluate opa inp =
     (case policy opa inp of
        Inl e \<Rightarrow> Inl (Errorf (''failed to evaluate policy: '' @ e))
      | Inr results \<Rightarrow>
          (case results of
             [] \<Rightarrow> Inr \<lparr>Allowed = False, Reason = ''no policy decision'', Data = []\<rparr>
           | r0 # rs \<Rightarrow>
               (case r0 of
                  [] \<Rightarrow> Inl (Panic ''index out of range'')
                | v # vs \<Rightarrow>
                    (case v of
                       JBool allowed \<Rightarrow>
                         Inr \<lparr>Allowed = allowed,
                              Reason = (if \<not> allowed then ''access denied by policy'' else []),
                              Data = []\<rparr>
                     | _ \<Rightarrow> Inr \<lparr>Allowed = False, Reason = ''invalid policy result'',
                                 Data = []\<rparr>))))"

text \<open>
  \<open>UpdatePolicy\<close> compiles the new source against the client's store and swaps the
  prepared query in only when that succeeds. The compiler (\<open>rego.New(...).PrepareForEval\<close>)
  is a parameter: it answers with an error text or with a prepared query.
\<close>

definition UpdatePolicy ::
  "('s \<Rightarrow> string \<Rightarrow> string + PreparedEvalQuery) \<Rightarrow> 's OPAClient \<Rightarrow> string
     \<Rightarrow> error option \<times> 's OPAClient" where
  "UpdatePolicy PrepareForEval opa src =
     (case PrepareForEval (store opa) src of
        Inl e \<Rightarrow> (Some (Errorf (''failed to compile new policy: '' @ e)), opa)
      | Inr newPolicy \<Rightarrow> (None, opa\<lparr>policy := newPolicy\<rparr>))"

subsection \<open>Idempotency\<close>

record idempotencyRecord =
  StatusCode :: int
  Headers :: "string \<rightharpoonup> string"
  Body :: string

text \<open>
  What the middleware takes from its surroundings: \<open>json.Marshal\<close> and \<open>json.Unmarshal\<close>
  on an \<open>idempotencyRecord\<close> (the source drops the error of \<open>Marshal\<close> and stores the
  bytes it returned), and the error handler of the echo instance behind \<open>c.Error\<close>, which
  answers an error with calls on the response and sees whether it is committed.
\<close>

record env =
  json_Marshal :: "idempotencyRecord \<Rightarrow> string"
  json_Unmarshal :: "string \<Rightarrow> idempotencyRecord option"
  HTTPErrorHandler :: "error \<Rightarrow> bool \<Rightarrow> resp_op list"

record Idempotency =
  ttl :: int

definition c_Error :: "env \<Rightarrow> error \<Rightarrow> Context \<Rightarrow> Context option" where
  "c_Error e err c =
     Option.bind (apply_ops (HTTPErrorHandler e err (Committed (response c))) (response c))
       (\<lambda>r. Some (c\<lparr>response := r\<rparr>))"

definition idempotency_key :: "string \<Rightarrow> string \<Rightarrow> string" where
  "idempotency_key tenantID idempotencyKey =
     ''idempotency:'' @ tenantID @ '':'' @ idempotencyKey"

text \<open>
  The hit branch: every stored header is set on \<open>c.Response()\<close> (no call when the record
  has none), then the status and the body are written, \<open>Committed\<close> is set and the
  error of the write is returned.
\<close>

definition set_headers :: "(string \<rightharpoonup> string) \<Rightarrow> Response \<Rightarrow> Response option" where
  "set_headers hs r =
     (if hs = Map.empty then Some r
      else Option.bind (Header EchoResponse r)
             (\<lambda>h. Some (r\<lparr>RespHeader :=
                (\<lambda>k. case hs k of Some v \<Rightarrow> Some [v] | None \<Rightarrow> h k)\<rparr>)))"

definition replay :: "idempotencyRecord \<Rightarrow> Response \<Rightarrow> (error option \<times> Response) option" where
  "replay rec r =
     Option.bind (set_headers (Headers rec) r) (\<lambda>r1.
     Option.bind (WriteHeader EchoResponse (StatusCode rec) r1) (\<lambda>r2.
     Option.bind (Write EchoResponse (Body rec) r2) (\<lambda>(writeErr, r3).
       Some (writeErr, r3\<lparr>Committed := True\<rparr>))))"

text \<open>The first value of every header that has one (\<open>headers[k] = vv[0]\<close>).\<close>

definition first_values :: "(string \<rightharpoonup> string list) \<Rightarrow> (string \<rightharpoonup> string)" where
  "first_values h = (\<lambda>k. case h k of Some (v # vs) \<Rightarrow> Some v | _ \<Rightarrow> None)"

text \<open>A captured status of 0 (never written) counts as 200.\<close>

definition effective_status :: "int \<Rightarrow> int" where
  "effective_status st = (if st = 0 then StatusOK else st)"

text \<open>
  The miss branch. The request body is read and put back unchanged. The recorder is
  created around \<open>c.Response()\<close> itself (\<open>ResponseWriter: c.Response()\<close>) and then made the
  \<open>Writer\<close> of that same response. After the handler, and after \<open>c.Error\<close> if the
  handler returned an error, the status is read from the recorder; below 500 the
  headers are asked of the recorder (\<open>recorder.Header()\<close>), the record is built and
  stored, and a failure of the store is only logged.
\<close>

definition capture :: "env \<Rightarrow> Idempotency \<Rightarrow> 'a HandlerFunc \<Rightarrow> string \<Rightarrow> 'a HandlerFunc" where
  "capture e i next key c w =
     (let recorder0 = \<lparr>ResponseWriter = EchoResponse, body = [], status = 0\<rparr>;
          c1 = c\<lparr>response := (response c)\<lparr>recorder := recorder0, Writer := RecorderWriter\<rparr>\<rparr>
      in Option.bind (next c1 w) (\<lambda>(err, c2, w2).
         Option.bind (case err of Some x \<Rightarrow> c_Error e x c2 | None \<Rightarrow> Some c2) (\<lambda>c3.
           let status = effective_status (status (recorder (response c3)))
           in if status < StatusInternalServerError then
                Option.bind (Header RecorderWriter (response c3)) (\<lambda>hdr.
                  let headers = first_values hdr;
                      rec = \<lparr>StatusCode = status, Headers = headers,
                             Body = body (recorder (response c3))\<rparr>;
                      recJSON = json_Marshal e rec
                  in case rdb_Set (rdb w2) key recJSON (ttl i) of
                       (serr, rdb2) \<Rightarrow> Some (None, c3, w2\<lparr>rdb := rdb2\<rparr>))
              else Some (None, c3, w2))))"

definition Idempotent :: "env \<Rightarrow> Idempotency \<Rightarrow> 'a HandlerFunc \<Rightarrow> 'a HandlerFunc" where
  "Idempotent e i next c w =
     (let method = ReqMethod (request c) in
      if method \<noteq> MethodPost \<and> method \<noteq> MethodPut \<and> method \<noteq> MethodPatch then next c w
      else
        let idempotencyKey = Header_Get (ReqHeader (request c)) ''Idempotency-Key'' in
        if idempotencyKey = [] then
          Some (Some (HTTPError StatusBadRequest ''missing Idempotency-Key header''), c, w)
        else
          case GetTenantID c of
            Inl err \<Rightarrow> Some (Some (HTTPError StatusUnauthorized ''missing tenant''), c, w)
          | Inr tenantID \<Rightarrow>
              let key = idempotency_key tenantID idempotencyKey in
              (case rdb_Get (rdb w) key of
                 Inr existing \<Rightarrow>
                   (case json_Unmarshal e existing of
                      None \<Rightarrow>
                        Some (Some (HTTPError StatusInternalServerError
                                 ''corrupted idempotency record''), c, w)
                    | Some rec \<Rightarrow>
                        Option.bind (replay rec (response c))
                          (\<lambda>(writeErr, r). Some (writeErr, c\<lparr>response := r\<rparr>, w)))
               | Inl err \<Rightarrow> capture e i next key c w))"

subsection \<open>Notions used to state the properties\<close>

definition state_changing :: "Context \<Rightarrow> bool" where
  "state_changing c =
     (ReqMethod (request c) = MethodPost \<or> ReqMethod (request c) = MethodPut
      \<or> ReqMethod (request c) = MethodPatch)"

text \<open>
  The writers form a cycle: the response forwards to the recorder and the recorder
  forwards to the response.
\<close>

definition cyclic :: "Response \<Rightarrow> bool" where
  "cyclic r = (Writer r = RecorderWriter \<and> ResponseWriter (recorder r) = EchoResponse)"

subsection \<open>Concrete requests, handlers and backends\<close>

text \<open>
  The inputs at which the properties below are exercised: certificates and requests, a
  world with an empty and reachable cache, business handlers, a policy input and a few
  prepared queries.
\<close>

definition client_cert :: "string \<Rightarrow> Certificate" where
  "client_cert cn = \<lparr>Subject = \<lparr>CommonName = cn\<rparr>, SerialNumber = 1\<rparr>"

definition verified_tls :: "string \<Rightarrow> ConnectionState" where
  "verified_tls cn = \<lparr>PeerCertificates = [client_cert cn], VerifiedChains = [[client_cert cn]]\<rparr>"

definition fresh_response :: Response where
  "fresh_response =
     \<lparr>Writer = ServerWriter, Status = 0, Committed = False,
      recorder = \<lparr>ResponseWriter = ServerWriter, body = [], status = 0\<rparr>,
      RespHeader = Map.empty, WroteHeader = False, WireStatus = 0, Sent = [],
      conn_error = None\<rparr>"

definition verified_request :: "string \<Rightarrow> string \<Rightarrow> (string \<rightharpoonup> string list) \<Rightarrow> Context" where
  "verified_request cn method hdrs =
     \<lparr>request = \<lparr>ReqMethod = method, ReqPath = ''/api/v1/payments'', ReqHeader = hdrs,
                  ReqBody = None, TLS = Some (verified_tls cn)\<rparr>,
      response = fresh_response,
      ctx_store = Map.empty\<rparr>"

text \<open>The same request once the tenant extraction has stored the tenant.\<close>

definition tenant_request :: "string \<Rightarrow> string \<Rightarrow> (string \<rightharpoonup> string list) \<Rightarrow> Context" where
  "tenant_request tenant method hdrs =
     (verified_request (''tenant-'' @ tenant @ ''.yourorg.com'') method hdrs)
       \<lparr>ctx_store := [TenantContextKey \<mapsto> VString tenant]\<rparr>"

definition post_K1 :: Context where
  "post_K1 = tenant_request ''abc'' ''POST'' [''Idempotency-Key'' \<mapsto> [''K1'']]"

definition world0 :: "nat world" where
  "world0 = \<lparr>rdb = \<lparr>kv = Map.empty, get_failure = None, set_failure = None\<rparr>, app = 0,
             handler_calls = 0\<rparr>"

definition lookup_down :: "nat world" where
  "lookup_down = world0\<lparr>rdb := (rdb world0)\<lparr>get_failure := Some ''connection refused''\<rparr>\<rparr>"

definition store_down :: "nat world" where
  "store_down = world0\<lparr>rdb := (rdb world0)\<lparr>set_failure := Some ''connection refused''\<rparr>\<rparr>"

definition pass :: "nat HandlerFunc" where
  "pass c w = Some (None, c, w)"

definition create_payment :: "nat handler" where
  "create_payment req st n =
     (None, [HeaderSet ''Content-Type'' ''application/json'', CallWriteHeader 201,
             CallWrite ''{id:p1}''], n + 1)"


definition silent :: "nat handler" where
  "silent req st n = (None, [], n + 1)"

text \<open>
  An environment with the error handler of the framework (an error is answered with its
  code and message unless the response is committed) and a codec that keeps the body
  alone; it stands where the codec is not reached.
\<close>

definition plain_env :: env where
  "plain_env =
     \<lparr>json_Marshal = (\<lambda>r. Body r),
      json_Unmarshal = (\<lambda>s. Some \<lparr>StatusCode = 200, Headers = Map.empty, Body = s\<rparr>),
      HTTPErrorHandler = (\<lambda>err committed.
         if committed then []
         else (case err of HTTPError code msg \<Rightarrow> [CallWriteHeader code, CallWrite msg]
               | _ \<Rightarrow> [CallWriteHeader 500, CallWrite ''Internal Server Error'']))\<rparr>"

definition idem :: Idempotency where
  "idem = \<lparr>ttl = 24\<rparr>"

definition created_response :: Response where
  "created_response =
     fresh_response\<lparr>Status := 201, Committed := True,
       RespHeader := [''Content-Type'' \<mapsto> [''application/json'']],
       WroteHeader := True, WireStatus := 201, Sent := ''{id:p1}''\<rparr>"

definition delete_input :: PolicyInput where
  "delete_input =
     \<lparr>TenantID = ''abc'', Method = ''DELETE'', Path = ''/api/v1/payments/p1'',
      InputHeaders = Map.empty, UserAgent = ''curl'', ClientIP = ''10.0.0.1'',
      Attributes = [''permissions'' \<mapsto> JArr [JStr ''create_payments'', JStr ''update_payments'']]\<rparr>"

definition deny_all :: PreparedEvalQuery where
  "deny_all inp = Inr [[JBool False]]"

definition toy_compiler :: "unit \<Rightarrow> string \<Rightarrow> string + PreparedEvalQuery" where
  "toy_compiler s src =
     (if src = ''package b2b_payments.auth allow = true'' then Inr (\<lambda>inp. Inr [[JBool True]])
      else Inl ''rego_parse_error'')"

section \<open>Tenant identity\<close>

lemma HasPrefix_append: "HasPrefix (p @ s) p"
  by (simp add: HasPrefix_def)

lemma TrimPrefix_append: "TrimPrefix (p @ s) p = s"
  by (simp add: TrimPrefix_def HasPrefix_def)

lemma HasSuffix_append: "HasSuffix (s @ suf) suf"
  by (simp add: HasSuffix_def)

lemma TrimSuffix_append: "TrimSuffix (s @ suf) suf = s"
  by (simp add: TrimSuffix_def HasSuffix_def)

text \<open>
  Claim C8. A request with a verified chain whose leaf certificate has the common name
  \<open>tenant-<id>.yourorg.com\<close>, \<open><id>\<close> not empty, passes the resolver: the next handler
  runs on the context with \<open><id>\<close> stored as the tenant, and \<open>GetTenantID\<close> reads exactly
  \<open><id>\<close> back.
\<close>

theorem tenant_extraction_resolves_id:
  assumes "TLS (request c) = Some st"
    and "PeerCertificates st = cert # others"
    and "VerifiedChains st \<noteq> []"
    and "CommonName (Subject cert) = ''tenant-'' @ tid @ ''.yourorg.com''"
    and "tid \<noteq> []"
  shows "TenantExtraction next c w =
           next (c\<lparr>ctx_store := (ctx_store c)(TenantContextKey \<mapsto> VString tid)\<rparr>) w
         \<and> GetTenantID (c\<lparr>ctx_store := (ctx_store c)(TenantContextKey \<mapsto> VString tid)\<rparr>) = Inr tid"
proof -
  let ?cn = "''tenant-'' @ tid @ ''.yourorg.com''"
  have p: "HasPrefix ?cn ''tenant-''" by (rule HasPrefix_append)
  have s: "HasSuffix ?cn ''.yourorg.com''"
    using HasSuffix_append [of "''tenant-'' @ tid" "''.yourorg.com''"] by simp
  have t: "TrimSuffix (TrimPrefix ?cn ''tenant-'') ''.yourorg.com'' = tid"
    by (simp only: TrimPrefix_append TrimSuffix_append)
  have ne: "?cn \<noteq> []" by simp
  show ?thesis
    using assms p s t ne
    by (simp add: TenantExtraction_def GetTenantID_def Let_def del: append.simps)
qed

theorem tenant_extraction_resolves_id_witness:
  "map_option (\<lambda>res. GetTenantID (fst (snd res)))
     (TenantExtraction pass (verified_request ''tenant-abc.yourorg.com'' ''POST'' Map.empty) world0)
   = Some (Inr ''abc'')"
  using tenant_extraction_resolves_id
    [of "verified_request ''tenant-abc.yourorg.com'' ''POST'' Map.empty"
        "verified_tls ''tenant-abc.yourorg.com''"
        "client_cert ''tenant-abc.yourorg.com''" "[]"
        "''abc''" pass world0]
  by (simp add: verified_request_def verified_tls_def client_cert_def pass_def)

text \<open>
  Claim C3, as the code has it. For a request with a verified chain: a common name that
  is not empty and lacks the prefix \<open>tenant-\<close> or the suffix \<open>.yourorg.com\<close>, or leaves
  an empty id between them, is rejected with 403 Forbidden; an empty common name is
  rejected with 401 Unauthorized. In both cases the context and the world come back
  unchanged: no tenant is stored and the next handler does not run.
\<close>

theorem tenant_rejection:
  assumes "TLS (request c) = Some st"
    and "PeerCertificates st = cert # others"
    and "VerifiedChains st \<noteq> []"
    and "cn = CommonName (Subject cert)"
  shows "(cn \<noteq> [] \<and> (\<not> HasPrefix cn ''tenant-'' \<or> \<not> HasSuffix cn ''.yourorg.com''
            \<or> TrimSuffix (TrimPrefix cn ''tenant-'') ''.yourorg.com'' = [])
          \<longrightarrow> (\<exists>msg. TenantExtraction next c w =
                  Some (Some (HTTPError StatusForbidden msg), c, w)))
       \<and> (cn = []
          \<longrightarrow> TenantExtraction next c w =
                Some (Some (HTTPError StatusUnauthorized
                              ''client certificate missing Common Name''), c, w))"
  using assms by (simp add: TenantExtraction_def Let_def)

theorem tenant_rejection_witness:
  "TenantExtraction pass (verified_request ''tenant-.yourorg.com'' ''POST'' Map.empty) world0 =
     Some (Some (HTTPError 403 ''empty tenant ID in certificate''),
           verified_request ''tenant-.yourorg.com'' ''POST'' Map.empty, world0)
   \<and> GetTenantID (verified_request ''tenant-.yourorg.com'' ''POST'' Map.empty)
     = Inl (Errorf ''tenant ID not found in context'')
   \<and> TenantExtraction pass (verified_request [] ''POST'' Map.empty) world0 =
     Some (Some (HTTPError 401 ''client certificate missing Common Name''),
           verified_request [] ''POST'' Map.empty, world0)"
  using tenant_rejection
    [of "verified_request ''tenant-.yourorg.com'' ''POST'' Map.empty"
        "verified_tls ''tenant-.yourorg.com''"
        "client_cert ''tenant-.yourorg.com''" "[]"
        "''tenant-.yourorg.com''" pass world0]
    tenant_rejection
    [of "verified_request [] ''POST'' Map.empty" "verified_tls []" "client_cert []" "[]"
        "[]" pass world0]
  by (simp add: TenantExtraction_def verified_request_def verified_tls_def client_cert_def
      StatusForbidden_def StatusUnauthorized_def GetTenantID_def HasPrefix_def HasSuffix_def
      TrimPrefix_def TrimSuffix_def Let_def)

text \<open>
  The claim as stated fails for the empty common name: the verified request whose
  certificate has no common name is answered with 401, not with 403.
\<close>

theorem empty_common_name_counterexample:
  "TenantExtraction pass (verified_request [] ''POST'' Map.empty) world0 =
     Some (Some (HTTPError 401 ''client certificate missing Common Name''),
           verified_request [] ''POST'' Map.empty, world0)
   \<and> (401::int) \<noteq> StatusForbidden"
  by (simp add: TenantExtraction_def verified_request_def verified_tls_def client_cert_def
      StatusUnauthorized_def StatusForbidden_def Let_def)

section \<open>Policy\<close>

subsection \<open>The calls of the default policy\<close>







text \<open>
  What \<open>Evaluate\<close> itself does with the result of a prepared query: the value \<open>false\<close>,
  no result and a value that is not a boolean all give \<open>allowed = false\<close>.
\<close>

lemma Evaluate_denies:
  "policy opa inp = Inr ([JBool False] # rs) \<Longrightarrow>
     Evaluate opa inp = Inr \<lparr>Allowed = False, Reason = ''access denied by policy'', Data = []\<rparr>"
  "policy opa inp = Inr [] \<Longrightarrow>
     Evaluate opa inp = Inr \<lparr>Allowed = False, Reason = ''no policy decision'', Data = []\<rparr>"
  "policy opa inp = Inr ((v # vs) # rs) \<Longrightarrow> \<forall>b. v \<noteq> JBool b \<Longrightarrow>
     Evaluate opa inp = Inr \<lparr>Allowed = False, Reason = ''invalid policy result'', Data = []\<rparr>"
  by (cases v; auto simp add: Evaluate_def)+

text \<open>
  Claim C4. When the new source does not compile, \<open>UpdatePolicy\<close> returns an error and
  the client is unchanged, so every later evaluation gives what it gave before.
\<close>

theorem failed_update_keeps_policy:
  assumes "PrepareForEval (store opa) src = Inl e"
  shows "fst (UpdatePolicy PrepareForEval opa src) =
           Some (Errorf (''failed to compile new policy: '' @ e))
         \<and> snd (UpdatePolicy PrepareForEval opa src) = opa
         \<and> Evaluate (snd (UpdatePolicy PrepareForEval opa src)) inp = Evaluate opa inp"
  using assms by (simp add: UpdatePolicy_def)

theorem failed_update_keeps_policy_witness:
  "fst (UpdatePolicy toy_compiler \<lparr>policy = deny_all, store = ()\<rparr> ''allow {'') =
     Some (Errorf ''failed to compile new policy: rego_parse_error'')
   \<and> Evaluate (snd (UpdatePolicy toy_compiler \<lparr>policy = deny_all, store = ()\<rparr> ''allow {''))
       delete_input =
     Inr \<lparr>Allowed = False, Reason = ''access denied by policy'', Data = []\<rparr>"
  using failed_update_keeps_policy
    [of toy_compiler "\<lparr>policy = deny_all, store = ()\<rparr>" "''allow {''" "''rego_parse_error''"
        delete_input]
  by (simp add: toy_compiler_def Evaluate_def deny_all_def)

section \<open>Idempotency\<close>

subsection \<open>The cache key\<close>

text \<open>
  Claim C7. The key is \<open>idempotency:\<close> followed by the tenant, a colon and the client's
  key, as the claim says. The serialization is not injective: the tenant \<open>a:b\<close> with the
  key \<open>c\<close> and the tenant \<open>a\<close> with the key \<open>b:c\<close> are stored under the same string.
\<close>

theorem idempotency_key_collision:
  "idempotency_key ''a:b'' ''c'' = idempotency_key ''a'' ''b:c''
   \<and> (''a:b'', ''c'') \<noteq> (''a'', ''b:c'')"
  by (simp add: idempotency_key_def)

text \<open>Two tenants whose identifiers hold no colon never share a key.\<close>

lemma separator_unique:
  "a \<notin> set xs \<Longrightarrow> a \<notin> set xs' \<Longrightarrow> xs @ a # ys = xs' @ a # ys' \<Longrightarrow> xs = xs' \<and> ys = ys'"
proof (induction xs arbitrary: xs')
  case Nil
  then show ?case by (cases xs') auto
next
  case (Cons x xs)
  then show ?case by (cases xs') auto
qed

lemma idempotency_key_inj:
  assumes "CHR '':'' \<notin> set t1" and "CHR '':'' \<notin> set t2"
    and "idempotency_key t1 k1 = idempotency_key t2 k2"
  shows "t1 = t2 \<and> k1 = k2"
proof -
  from assms(3) have "t1 @ CHR '':'' # k1 = t2 @ CHR '':'' # k2"
    by (simp add: idempotency_key_def)
  with assms(1,2) show ?thesis
    by (rule separator_unique)
qed

subsection \<open>Calls on the writers\<close>

text \<open>
  With the server's writer below the response, the calls return what \<open>net/http\<close> and the
  framework document.
\<close>

lemma Header_server: "Header ServerWriter r = Some (RespHeader r)"
  by (subst Header.simps) simp

lemma Header_direct: "Writer r = ServerWriter \<Longrightarrow> Header EchoResponse r = Some (RespHeader r)"
  by (subst Header.simps) (simp add: Header_server)

lemma WriteHeader_committed: "Committed r \<Longrightarrow> WriteHeader EchoResponse code r = Some r"
  by (subst WriteHeader.simps) simp

lemma WriteHeader_direct:
  "Writer r = ServerWriter \<Longrightarrow> \<not> Committed r \<Longrightarrow> \<not> WroteHeader r \<Longrightarrow> 100 \<le> code \<Longrightarrow> code \<le> 999 \<Longrightarrow>
   WriteHeader EchoResponse code r =
     Some (r\<lparr>Status := code, WroteHeader := True, WireStatus := code, Committed := True\<rparr>)"
  by (subst WriteHeader.simps, subst WriteHeader.simps) simp

lemma Write_direct:
  "Writer r = ServerWriter \<Longrightarrow> Committed r \<Longrightarrow> Write EchoResponse b r = Some (server_Write b r)"
  by (subst Write.simps, subst Write.simps) simp

text \<open>
  When the response forwards to the recorder and the recorder to the response, no call
  on either of them returns, except \<open>WriteHeader\<close> on a response that is committed
  already, which returns at once and changes nothing.
\<close>

lemma Header_cyclic_aux:
  assumes "Header x r = Some h"
  shows "\<not> (cyclic r \<and> x \<noteq> ServerWriter)"
proof (rule Header.raw_induct
    [where xa = "(x, r)" and y = h and P = "\<lambda>x r h. \<not> (cyclic r \<and> x \<noteq> ServerWriter)",
     unfolded prod.case])
  show "Header x r = Some h" by fact
next
  fix H x r and h :: "string \<rightharpoonup> string list"
  assume "\<And>x r y. H x r = Some y \<Longrightarrow> \<not> (cyclic r \<and> x \<noteq> ServerWriter)"
    and "(case x of ServerWriter \<Rightarrow> Some (RespHeader r)
            | EchoResponse \<Rightarrow> H (Writer r) r
            | RecorderWriter \<Rightarrow> H (ResponseWriter (recorder r)) r) = Some h"
  then show "\<not> (cyclic r \<and> x \<noteq> ServerWriter)"
    by (cases x) (fastforce simp add: cyclic_def)+
qed

lemma Header_cyclic: "cyclic r \<Longrightarrow> x \<noteq> ServerWriter \<Longrightarrow> Header x r = None"
  using Header_cyclic_aux [of x r] by (cases "Header x r") auto

lemma WriteHeader_cyclic_aux:
  assumes "WriteHeader x code r = Some r'"
  shows "\<not> (cyclic r \<and> \<not> Committed r \<and> x \<noteq> ServerWriter)"
proof (rule WriteHeader.raw_induct
    [where xa = "((x, code), r)" and y = r'
       and P = "\<lambda>x code r r'. \<not> (cyclic r \<and> \<not> Committed r \<and> x \<noteq> ServerWriter)",
     unfolded prod.case])
  show "WriteHeader x code r = Some r'" by fact
next
  fix H x r r' and code :: int
  assume "\<And>x code r y. H x code r = Some y \<Longrightarrow> \<not> (cyclic r \<and> \<not> Committed r \<and> x \<noteq> ServerWriter)"
    and "(case x of
        ServerWriter \<Rightarrow>
          if WroteHeader r then Some r
          else if code < 100 \<or> 999 < code then None
               else Some (r\<lparr>WroteHeader := True, WireStatus := code\<rparr>)
        | EchoResponse \<Rightarrow>
            if Committed r then Some r
            else Option.bind
                  (H (Writer r) code (r\<lparr>Status := code\<rparr>))
                  (\<lambda>r'. Some (r'\<lparr>Committed := True\<rparr>))
        | RecorderWriter \<Rightarrow>
            H (ResponseWriter (recorder r)) code
             (r\<lparr>recorder := recorder r\<lparr>status := code\<rparr>\<rparr>)) = Some r'"
  then show "\<not> (cyclic r \<and> \<not> Committed r \<and> x \<noteq> ServerWriter)"
    by (cases x) (fastforce simp add: cyclic_def split: if_splits bind_splits)+
qed

lemma WriteHeader_cyclic:
  "cyclic r \<Longrightarrow> \<not> Committed r \<Longrightarrow> x \<noteq> ServerWriter \<Longrightarrow> WriteHeader x code r = None"
  using WriteHeader_cyclic_aux [of x code r] by (cases "WriteHeader x code r") auto

lemma cyclic_Status [simp]: "cyclic (r\<lparr>Status := s\<rparr>) = cyclic r"
  by (simp add: cyclic_def)

lemma Write_cyclic_aux:
  assumes "Write x b r = Some y"
  shows "\<not> (cyclic r \<and> x \<noteq> ServerWriter)"
proof (rule Write.raw_induct
    [where xa = "((x, b), r)" and y = y
       and P = "\<lambda>x b r y. \<not> (cyclic r \<and> x \<noteq> ServerWriter)",
     unfolded prod.case])
  show "Write x b r = Some y" by fact
next
  fix H x b r and y :: "error option \<times> Response"
  assume IH: "\<And>x b r y. H x b r = Some y \<Longrightarrow> \<not> (cyclic r \<and> x \<noteq> ServerWriter)"
    and eq: "(case x of
        ServerWriter \<Rightarrow> Some (server_Write b r)
      | EchoResponse \<Rightarrow>
          Option.bind
            (if Committed r then Some r
             else if Status r = 0 then WriteHeader EchoResponse StatusOK (r\<lparr>Status := StatusOK\<rparr>)
             else WriteHeader EchoResponse (Status r) r)
            (\<lambda>r1. H (Writer r1) b r1)
      | RecorderWriter \<Rightarrow>
          H (ResponseWriter (recorder r)) b
            (r\<lparr>recorder := (recorder r)\<lparr>body := body (recorder r) @ b\<rparr>\<rparr>)) = Some y"
  show "\<not> (cyclic r \<and> x \<noteq> ServerWriter)"
  proof
    assume c: "cyclic r \<and> x \<noteq> ServerWriter"
    show False
    proof (cases x)
      case ServerWriter
      with c show False by simp
    next
      case EchoResponse
      show False
      proof (cases "Committed r")
        case True
        with eq EchoResponse have "H (Writer r) b r = Some y" by simp
        from IH [OF this] c show False by (simp add: cyclic_def)
      next
        case False
        with c have "WriteHeader EchoResponse StatusOK (r\<lparr>Status := StatusOK\<rparr>) = None"
          and "WriteHeader EchoResponse (Status r) r = None"
          by (simp_all add: WriteHeader_cyclic)
        with eq EchoResponse False show False by (simp split: if_splits)
      qed
    next
      case RecorderWriter
      with eq have "H (ResponseWriter (recorder r)) b
            (r\<lparr>recorder := (recorder r)\<lparr>body := body (recorder r) @ b\<rparr>\<rparr>) = Some y" by simp
      from IH [OF this] c show False by (simp add: cyclic_def)
    qed
  qed
qed

lemma Write_cyclic: "cyclic r \<Longrightarrow> x \<noteq> ServerWriter \<Longrightarrow> Write x b r = None"
  using Write_cyclic_aux [of x b r] by (cases "Write x b r") auto

lemma apply_op_cyclic:
  assumes "cyclic r" and "apply_op op r = Some r'"
  shows "r' = r"
proof (cases op)
  case (HeaderSet k v)
  with assms show ?thesis by (simp add: Header_Set_def Header_cyclic)
next
  case (HeaderAdd k v)
  with assms show ?thesis by (simp add: Header_Add_def Header_cyclic)
next
  case (CallWriteHeader code)
  show ?thesis
  proof (cases "Committed r")
    case True
    with assms CallWriteHeader show ?thesis by (simp add: WriteHeader_committed)
  next
    case False
    with assms CallWriteHeader show ?thesis by (simp add: WriteHeader_cyclic)
  qed
next
  case (CallWrite b)
  with assms show ?thesis by (simp add: Write_cyclic)
qed

lemma apply_ops_cyclic: "cyclic r \<Longrightarrow> apply_ops ops r = Some r' \<Longrightarrow> r' = r"
proof (induction ops)
  case Nil
  then show ?case by simp
next
  case (Cons op ops)
  from Cons.prems(2) obtain r1 where a: "apply_op op r = Some r1" and b: "apply_ops ops r1 = Some r'"
    by (auto split: bind_splits)
  from apply_op_cyclic [OF Cons.prems(1) a] have "r1 = r" .
  with b Cons.IH Cons.prems(1) show ?case by simp
qed

subsection \<open>The miss branch does not return\<close>

text \<open>
  The miss branch builds exactly that cycle. Whatever the handler does, no call of its
  on the response that returns has changed anything, so the recorder still holds the
  status 0, which counts as 200, and \<open>recorder.Header()\<close> is asked and never answers.
\<close>

lemma capture_never_returns: "capture e i (handler_of h) key c w = None"
proof (rule ccontr)
  let ?r1 = "(response c)\<lparr>recorder := \<lparr>ResponseWriter = EchoResponse, body = [], status = 0\<rparr>,
                            Writer := RecorderWriter\<rparr>"
  let ?c1 = "c\<lparr>response := ?r1\<rparr>"
  have cyc: "cyclic ?r1" by (simp add: cyclic_def)
  assume "capture e i (handler_of h) key c w \<noteq> None"
  then obtain res where res: "capture e i (handler_of h) key c w = Some res" by auto
  obtain herr ops a where h: "h (request c) (ctx_store c) (app w) = (herr, ops, a)"
    by (cases "h (request c) (ctx_store c) (app w)")
  from res obtain err c2 w2 where n: "handler_of h ?c1 w = Some (err, c2, w2)"
    by (auto simp add: capture_def Let_def split: bind_splits)
  from n h obtain r2 where r2: "apply_ops ops ?r1 = Some r2" and c2: "c2 = ?c1\<lparr>response := r2\<rparr>"
    by (auto simp add: handler_of_def split: bind_splits)
  from apply_ops_cyclic [OF cyc r2] have r2': "r2 = ?r1" .
  from res n obtain c3 where
    c3: "(case err of Some x \<Rightarrow> c_Error e x c2 | None \<Rightarrow> Some c2) = Some c3"
    by (auto simp add: capture_def Let_def split: bind_splits)
  have r3: "response c3 = ?r1"
  proof (cases err)
    case None
    with c3 c2 r2' show ?thesis by auto
  next
    case (Some x)
    with c3 obtain r3 where "apply_ops (HTTPErrorHandler e x (Committed (response c2))) (response c2) = Some r3"
      and "c3 = c2\<lparr>response := r3\<rparr>"
      by (auto simp add: c_Error_def split: bind_splits)
    moreover have "response c2 = ?r1" using c2 r2' by simp
    ultimately show ?thesis using apply_ops_cyclic [OF cyc] by auto
  qed
  have "Header RecorderWriter (response c3) = None"
    unfolding r3 by (rule Header_cyclic [OF cyc]) simp
  moreover have "effective_status (status (recorder (response c3))) < StatusInternalServerError"
    unfolding r3 by (simp add: effective_status_def StatusOK_def StatusInternalServerError_def)
  ultimately show False
    using res n c3 by (simp add: capture_def Let_def)
qed

lemma Idempotent_lookup:
  assumes "state_changing c"
    and "Header_Get (ReqHeader (request c)) ''Idempotency-Key'' = k" and "k \<noteq> []"
    and "GetTenantID c = Inr t"
  shows "Idempotent e i next c w =
           (case rdb_Get (rdb w) (idempotency_key t k) of
              Inr existing \<Rightarrow>
                (case json_Unmarshal e existing of
                   None \<Rightarrow> Some (Some (HTTPError StatusInternalServerError
                                    ''corrupted idempotency record''), c, w)
                 | Some rec \<Rightarrow>
                     Option.bind (replay rec (response c))
                       (\<lambda>(writeErr, r). Some (writeErr, c\<lparr>response := r\<rparr>, w)))
            | Inl err \<Rightarrow> capture e i next (idempotency_key t k) c w)"
  using assms by (auto simp add: Idempotent_def state_changing_def Let_def)

lemma miss_never_returns:
  assumes "state_changing c"
    and "Header_Get (ReqHeader (request c)) ''Idempotency-Key'' = k" and "k \<noteq> []"
    and "GetTenantID c = Inr t"
    and "rdb_Get (rdb w) (idempotency_key t k) = Inl ge"
  shows "Idempotent e i (handler_of h) c w = None"
  using assms(5) by (simp add: Idempotent_lookup [OF assms(1-4)] capture_never_returns)

subsection \<open>The hit branch\<close>

text \<open>
  A hit runs no handler and installs no recorder. On a response nothing has been
  written to, with a status the server accepts and a connection that takes the write,
  the record's status and body and one value for each of its headers are sent.
\<close>

lemma Idempotent_hit:
  assumes "state_changing c"
    and "Header_Get (ReqHeader (request c)) ''Idempotency-Key'' = k" and "k \<noteq> []"
    and "GetTenantID c = Inr t"
    and "rdb_Get (rdb w) (idempotency_key t k) = Inr v"
    and "json_Unmarshal e v = Some rec"
  shows "Idempotent e i next c w =
           Option.bind (replay rec (response c))
             (\<lambda>(writeErr, r). Some (writeErr, c\<lparr>response := r\<rparr>, w))"
  using assms(5,6) by (simp add: Idempotent_lookup [OF assms(1-4)])

lemma replay_direct:
  assumes "Writer r = ServerWriter" and "\<not> Committed r" and "\<not> WroteHeader r"
    and "conn_error r = None" and "100 \<le> StatusCode rec" and "StatusCode rec \<le> 999"
  shows "replay rec r =
           Some (None,
                 r\<lparr>RespHeader := (\<lambda>k. case Headers rec k of Some v \<Rightarrow> Some [v]
                                        | None \<Rightarrow> RespHeader r k),
                   Status := StatusCode rec, WroteHeader := True, WireStatus := StatusCode rec,
                   Committed := True, Sent := Sent r @ Body rec\<rparr>)"
proof -
  let ?h = "\<lambda>k. case Headers rec k of Some v \<Rightarrow> Some [v] | None \<Rightarrow> RespHeader r k"
  have h: "set_headers (Headers rec) r = Some (r\<lparr>RespHeader := ?h\<rparr>)"
  proof (cases "Headers rec = Map.empty")
    case True
    then have "?h = RespHeader r" by (simp add: fun_eq_iff)
    with True show ?thesis by (simp add: set_headers_def)
  next
    case False
    with assms(1) show ?thesis by (simp add: set_headers_def Header_direct)
  qed
  have w: "WriteHeader EchoResponse (StatusCode rec) (r\<lparr>RespHeader := ?h\<rparr>) =
      Some (r\<lparr>RespHeader := ?h, Status := StatusCode rec, WroteHeader := True,
              WireStatus := StatusCode rec, Committed := True\<rparr>)"
    using assms by (simp add: WriteHeader_direct)
  have b: "Write EchoResponse (Body rec)
        (r\<lparr>RespHeader := ?h, Status := StatusCode rec, WroteHeader := True,
           WireStatus := StatusCode rec, Committed := True\<rparr>) =
      Some (None, r\<lparr>RespHeader := ?h, Status := StatusCode rec, WroteHeader := True,
                    WireStatus := StatusCode rec, Committed := True, Sent := Sent r @ Body rec\<rparr>)"
    using assms by (simp add: Write_direct server_Write_def)
  show ?thesis
    by (simp add: replay_def h w b)
qed

text \<open>
  The tenant \<open>a\<close> sending the key \<open>b:c\<close> is answered from whatever is cached under the
  key of the tenant \<open>a:b\<close> for \<open>c\<close>.
\<close>

lemma colliding_key_hit:
  assumes "rdb_Get (rdb w) (idempotency_key ''a:b'' ''c'') = Inr v"
    and "json_Unmarshal e v = Some rec"
  shows "Idempotent e i next (tenant_request ''a'' ''POST'' [''Idempotency-Key'' \<mapsto> [''b:c'']]) w =
           Option.bind (replay rec fresh_response)
             (\<lambda>(writeErr, r). Some (writeErr,
                (tenant_request ''a'' ''POST'' [''Idempotency-Key'' \<mapsto> [''b:c'']])\<lparr>response := r\<rparr>, w))"
proof -
  let ?c = "tenant_request ''a'' ''POST'' [''Idempotency-Key'' \<mapsto> [''b:c'']]"
  have sc: "state_changing ?c"
    by (simp add: state_changing_def tenant_request_def verified_request_def MethodPost_def)
  have k: "Header_Get (ReqHeader (request ?c)) ''Idempotency-Key'' = ''b:c''"
    by (simp add: tenant_request_def verified_request_def Header_Get_def)
  have ne: "''b:c'' \<noteq> []" by simp
  have t: "GetTenantID ?c = Inr ''a''"
    by (simp add: tenant_request_def verified_request_def GetTenantID_def)
  have key: "idempotency_key ''a'' ''b:c'' = idempotency_key ''a:b'' ''c''"
    by (simp add: idempotency_key_def)
  have r: "response ?c = fresh_response"
    by (simp add: tenant_request_def verified_request_def)
  from Idempotent_hit [OF sc k ne t, of w v e rec i "next"] assms key r
  show ?thesis by simp
qed

subsection \<open>Properties of the middleware\<close>

text \<open>
  Claim C9. A POST, PUT or PATCH request without a value of the header \<open>Idempotency-Key\<close>
  is answered with the error 400 and the context and the world are unchanged, so no
  handler has run. For any other method the middleware is the next handler: no lookup
  and no store.
\<close>

theorem missing_key_rejected:
  "(state_changing c \<and> Header_Get (ReqHeader (request c)) ''Idempotency-Key'' = [] \<longrightarrow>
      Idempotent e i next c w =
        Some (Some (HTTPError StatusBadRequest ''missing Idempotency-Key header''), c, w))
   \<and> (\<not> state_changing c' \<longrightarrow> Idempotent e i next c' w' = next c' w')"
  by (auto simp add: Idempotent_def state_changing_def Let_def)

lemma run_create:
  "handler_of create_payment (tenant_request t m hs) w =
     Some (None, (tenant_request t m hs)\<lparr>response := created_response\<rparr>,
           w\<lparr>app := app w + 1, handler_calls := handler_calls w + 1\<rparr>)"
proof -
  have a: "Header_Set ''Content-Type'' ''application/json'' fresh_response =
      Some (fresh_response\<lparr>RespHeader := [''Content-Type'' \<mapsto> [''application/json'']]\<rparr>)"
    by (simp add: Header_Set_def Header_direct fresh_response_def)
  have b: "WriteHeader EchoResponse 201
        (fresh_response\<lparr>RespHeader := [''Content-Type'' \<mapsto> [''application/json'']]\<rparr>) =
      Some (fresh_response\<lparr>RespHeader := [''Content-Type'' \<mapsto> [''application/json'']],
              Status := 201, WroteHeader := True, WireStatus := 201, Committed := True\<rparr>)"
    by (simp add: WriteHeader_direct fresh_response_def)
  have c: "Write EchoResponse ''{id:p1}''
        (fresh_response\<lparr>RespHeader := [''Content-Type'' \<mapsto> [''application/json'']],
              Status := 201, WroteHeader := True, WireStatus := 201, Committed := True\<rparr>) =
      Some (None, created_response)"
    by (simp add: Write_direct server_Write_def fresh_response_def created_response_def)
  show ?thesis
    by (simp add: handler_of_def create_payment_def tenant_request_def verified_request_def a b c)
qed

lemma world0_facts: "app world0 = 0" "handler_calls world0 = 0"
  by (simp_all add: world0_def)

theorem missing_key_rejected_witness:
  "Idempotent plain_env idem (handler_of create_payment)
     (tenant_request ''abc'' ''POST'' Map.empty) world0 =
     Some (Some (HTTPError 400 ''missing Idempotency-Key header''),
           tenant_request ''abc'' ''POST'' Map.empty, world0)
   \<and> Idempotent plain_env idem (handler_of create_payment)
     (tenant_request ''abc'' ''GET'' Map.empty) world0 =
     Some (None, (tenant_request ''abc'' ''GET'' Map.empty)\<lparr>response := created_response\<rparr>,
           world0\<lparr>app := 1, handler_calls := 1\<rparr>)"
proof -
  have post: "state_changing (tenant_request ''abc'' ''POST'' Map.empty)
      \<and> Header_Get (ReqHeader (request (tenant_request ''abc'' ''POST'' Map.empty)))
            ''Idempotency-Key'' = []"
    by (simp add: state_changing_def tenant_request_def verified_request_def Header_Get_def
        MethodPost_def)
  have get: "\<not> state_changing (tenant_request ''abc'' ''GET'' Map.empty)"
    by (simp add: state_changing_def tenant_request_def verified_request_def
        MethodPost_def MethodPut_def MethodPatch_def)
  from missing_key_rejected
    [of "tenant_request ''abc'' ''POST'' Map.empty" plain_env idem
        "handler_of create_payment" world0 "tenant_request ''abc'' ''GET'' Map.empty" world0]
    post get
  show ?thesis
    by (simp add: run_create world0_facts StatusBadRequest_def)
qed

lemma post_K1_facts:
  "state_changing post_K1"
  "Header_Get (ReqHeader (request post_K1)) ''Idempotency-Key'' = ''K1''"
  "GetTenantID post_K1 = Inr ''abc''"
  by (simp_all add: post_K1_def tenant_request_def verified_request_def state_changing_def
      Header_Get_def GetTenantID_def MethodPost_def)

lemma K1_not_empty: "''K1'' \<noteq> []"
  by simp

lemma world0_miss: "rdb_Get (rdb world0) (idempotency_key ''abc'' ''K1'') = Inl redis_Nil"
  by (simp add: world0_def rdb_Get_def)

lemma lookup_down_fails:
  "rdb_Get (rdb lookup_down) (idempotency_key ''abc'' ''K1'') = Inl (RedisErr ''connection refused'')"
  by (simp add: lookup_down_def world0_def rdb_Get_def)

lemma store_down_miss: "rdb_Get (rdb store_down) (idempotency_key ''abc'' ''K1'') = Inl redis_Nil"
  by (simp add: store_down_def world0_def rdb_Get_def)

text \<open>
  Claim C1. The claim needs a first execution that completes with a status below 500
  and leaves its record in the cache. The code does not get there: the handler alone
  answers the request with 201, but under the middleware, on a cache miss, the request
  never returns, and nothing is stored that a second request could be answered from.
\<close>

theorem first_request_never_returns:
  "handler_of create_payment post_K1 world0 =
     Some (None, post_K1\<lparr>response := created_response\<rparr>, world0\<lparr>app := 1, handler_calls := 1\<rparr>)
   \<and> Idempotent e idem (handler_of create_payment) post_K1 world0 = None"
  using miss_never_returns [OF post_K1_facts(1) post_K1_facts(2) K1_not_empty post_K1_facts(3)
      world0_miss, of e idem create_payment]
  by (simp add: post_K1_def run_create world0_facts)

text \<open>
  Claim C5. The claim says that a request whose cache lookup fails, or whose record
  cannot be stored, still gets the handler's response. In the code both requests take
  the miss branch and never return, although the handler alone answers with 201.
\<close>

theorem degraded_request_never_returns:
  "handler_of create_payment post_K1 lookup_down =
     Some (None, post_K1\<lparr>response := created_response\<rparr>,
           lookup_down\<lparr>app := 1, handler_calls := 1\<rparr>)
   \<and> Idempotent e idem (handler_of create_payment) post_K1 lookup_down = None
   \<and> Idempotent e idem (handler_of create_payment) post_K1 store_down = None"
  using miss_never_returns [OF post_K1_facts(1) post_K1_facts(2) K1_not_empty post_K1_facts(3)
      lookup_down_fails, of e idem create_payment]
    miss_never_returns [OF post_K1_facts(1) post_K1_facts(2) K1_not_empty post_K1_facts(3)
      store_down_miss, of e idem create_payment]
  by (simp add: post_K1_def run_create lookup_down_def world0_facts)


text \<open>
  Claim C10. The claim says that a handler that never sets a status has a record with
  the status code 200 stored. In the code the request of a handler that writes nothing
  never returns from the middleware: the captured status 0 is read as 200, and the
  headers are then asked of the recorder, which does not answer. No record is stored.
\<close>

theorem silent_request_never_returns:
  "handler_of silent post_K1 world0 =
     Some (None, post_K1, world0\<lparr>app := 1, handler_calls := 1\<rparr>)
   \<and> Idempotent e idem (handler_of silent) post_K1 world0 = None"
  using miss_never_returns [OF post_K1_facts(1) post_K1_facts(2) K1_not_empty post_K1_facts(3)
      world0_miss, of e idem silent]
  by (simp add: handler_of_def silent_def world0_def)

end
